theory Spec2Isabelle
  imports Main "HOL-Library.Word"
begin

section \<open>The Point class of umbral/point.py\<close>

text \<open>
  \<^verbatim>\<open>Point\<close> wraps a native \<^verbatim>\<open>EC_POINT\<close> and the \<^verbatim>\<open>Curve\<close> it lives on. Every
  operation delegates the arithmetic to the native library reached through
  \<^verbatim>\<open>backend._lib\<close> and checks the library's return code with
  \<^verbatim>\<open>backend.openssl_assert\<close>. The native library is not part of the module: it is
  a parameter of the model (the record \<open>provider\<close>), each primitive a function on point
  values. The native objects live in an explicit store, addressed by handles, so that
  aliasing between Points (and with a curve's generator) is visible.
\<close>

subsection \<open>Errors\<close>

text \<open>
  \<open>InternalError\<close> is what \<^verbatim>\<open>backend.openssl_assert\<close> raises on a false condition;
  \<open>ConfigurationError\<close> is what reading an unset default curve raises.
\<close>

datatype error = ConfigurationError | InternalError

definition openssl_assert :: "bool \<Rightarrow> error + unit" where
  "openssl_assert ok = (if ok then Inr () else Inl InternalError)"

subsection \<open>Data\<close>

type_synonym handle = nat
type_synonym byte = "8 word"

datatype point_conversion_form = POINT_CONVERSION_COMPRESSED | POINT_CONVERSION_UNCOMPRESSED

text \<open>\<^verbatim>\<open>Curve\<close>: the attributes that point.py reads.\<close>

record 'g Curve =
  ec_group :: 'g
  generator :: handle
  field_order_size_in_bytes :: nat

text \<open>\<^verbatim>\<open>Point.__init__\<close>: the two fields.\<close>

record 'g Point =
  ec_point :: handle
  curve :: "'g Curve"

text \<open>\<^verbatim>\<open>CurveBN\<close>: the attribute \<^verbatim>\<open>bignum\<close> read by \<^verbatim>\<open>__mul__\<close>, and the scalar's own curve.\<close>

record 'g CurveBN =
  bignum :: nat
  bn_curve :: "'g Curve"

text \<open>
  The native library, on point values of type \<open>'pt\<close>. \<open>None\<close> stands for the failure
  return of the C function (\<^verbatim>\<open>NULL\<close> for the constructors, a code other than 1 for
  the arithmetic). \<open>point_cmp\<close> returns the C code itself: 0 equal, 1 not equal, -1
  error. \<open>encode\<close> returns the octets written into a buffer of the given capacity; the
  empty list is the return code 0.
\<close>

record ('g, 'pt) provider =
  new_group_element :: "'g \<Rightarrow> 'pt option"
  duplicate :: "'pt \<Rightarrow> 'g \<Rightarrow> 'pt option"
  scalar_mul :: "'g \<Rightarrow> 'pt \<Rightarrow> nat \<Rightarrow> 'pt option"
  point_add :: "'g \<Rightarrow> 'pt \<Rightarrow> 'pt \<Rightarrow> 'pt option"
  point_invert :: "'g \<Rightarrow> 'pt \<Rightarrow> 'pt option"
  point_cmp :: "'g \<Rightarrow> 'pt \<Rightarrow> 'pt \<Rightarrow> int"
  encode :: "'g \<Rightarrow> 'pt \<Rightarrow> point_conversion_form \<Rightarrow> nat \<Rightarrow> byte list"
  decode :: "'g \<Rightarrow> byte list \<Rightarrow> 'pt option"
  point_from_affine :: "'g \<Rightarrow> int \<Rightarrow> int \<Rightarrow> 'pt option"
  affine_from_point :: "'g \<Rightarrow> 'pt \<Rightarrow> (int \<times> int) option"
  is_identity :: "'g \<Rightarrow> 'pt \<Rightarrow> bool"

text \<open>
  The process: the store of native \<^verbatim>\<open>EC_POINT\<close> objects (handle \<open>h\<close> designates
  \<open>ec_points ! h\<close>; allocation appends) and the configured default curve.
\<close>

record ('g, 'pt) process =
  ec_points :: "'pt list"
  CONFIG_curve :: "'g Curve option"

definition deref :: "('g, 'pt) process \<Rightarrow> handle \<Rightarrow> 'pt option" where
  "deref s h = (if h < length (ec_points s) then Some (ec_points s ! h) else None)"

definition alloc :: "'pt \<Rightarrow> ('g, 'pt) process \<Rightarrow> handle \<times> ('g, 'pt) process" where
  "alloc v s = (length (ec_points s), s\<lparr>ec_points := ec_points s @ [v]\<rparr>)"

definition store :: "handle \<Rightarrow> 'pt \<Rightarrow> ('g, 'pt) process \<Rightarrow> ('g, 'pt) process" where
  "store h v s = s\<lparr>ec_points := (ec_points s)[h := v]\<rparr>"

subsection \<open>The C functions, on handles\<close>

text \<open>
  Each C function reads its operands from the store and writes its result object in
  place, returning the C return code. A handle that designates no object is treated as
  a \<^verbatim>\<open>NULL\<close> argument: the function reports failure.
\<close>

definition EC_POINT_new :: "('g, 'pt) provider \<Rightarrow> 'g \<Rightarrow> ('g, 'pt) process
    \<Rightarrow> handle option \<times> ('g, 'pt) process" where
  "EC_POINT_new L g s =
     (case new_group_element L g of
        None \<Rightarrow> (None, s)
      | Some v \<Rightarrow> (let (h, s') = alloc v s in (Some h, s')))"

definition EC_POINT_dup :: "('g, 'pt) provider \<Rightarrow> handle \<Rightarrow> 'g \<Rightarrow> ('g, 'pt) process
    \<Rightarrow> handle option \<times> ('g, 'pt) process" where
  "EC_POINT_dup L src g s =
     (case deref s src of
        None \<Rightarrow> (None, s)
      | Some v \<Rightarrow>
          (case duplicate L v g of
             None \<Rightarrow> (None, s)
           | Some v' \<Rightarrow> (let (h, s') = alloc v' s in (Some h, s'))))"

definition EC_POINT_mul :: "('g, 'pt) provider \<Rightarrow> 'g \<Rightarrow> handle \<Rightarrow> handle \<Rightarrow> nat
    \<Rightarrow> ('g, 'pt) process \<Rightarrow> int \<times> ('g, 'pt) process" where
  "EC_POINT_mul L g r q m s =
     (case (deref s r, deref s q) of
        (Some _, Some qv) \<Rightarrow>
          (case scalar_mul L g qv m of
             None \<Rightarrow> (0, s)
           | Some v \<Rightarrow> (1, store r v s))
      | _ \<Rightarrow> (0, s))"

definition EC_POINT_add :: "('g, 'pt) provider \<Rightarrow> 'g \<Rightarrow> handle \<Rightarrow> handle \<Rightarrow> handle
    \<Rightarrow> ('g, 'pt) process \<Rightarrow> int \<times> ('g, 'pt) process" where
  "EC_POINT_add L g r a b s =
     (case (deref s r, deref s a, deref s b) of
        (Some _, Some av, Some bv) \<Rightarrow>
          (case point_add L g av bv of
             None \<Rightarrow> (0, s)
           | Some v \<Rightarrow> (1, store r v s))
      | _ \<Rightarrow> (0, s))"

definition EC_POINT_invert :: "('g, 'pt) provider \<Rightarrow> 'g \<Rightarrow> handle
    \<Rightarrow> ('g, 'pt) process \<Rightarrow> int \<times> ('g, 'pt) process" where
  "EC_POINT_invert L g a s =
     (case deref s a of
        None \<Rightarrow> (0, s)
      | Some av \<Rightarrow>
          (case point_invert L g av of
             None \<Rightarrow> (0, s)
           | Some v \<Rightarrow> (1, store a v s)))"

definition EC_POINT_cmp :: "('g, 'pt) provider \<Rightarrow> 'g \<Rightarrow> handle \<Rightarrow> handle
    \<Rightarrow> ('g, 'pt) process \<Rightarrow> int" where
  "EC_POINT_cmp L g a b s =
     (case (deref s a, deref s b) of
        (Some av, Some bv) \<Rightarrow> point_cmp L g av bv
      | _ \<Rightarrow> - 1)"

definition EC_POINT_point2oct :: "('g, 'pt) provider \<Rightarrow> 'g \<Rightarrow> handle
    \<Rightarrow> point_conversion_form \<Rightarrow> nat \<Rightarrow> ('g, 'pt) process \<Rightarrow> byte list" where
  "EC_POINT_point2oct L g a form len s =
     (case deref s a of
        None \<Rightarrow> []
      | Some av \<Rightarrow> encode L g av form len)"

definition EC_POINT_oct2point :: "('g, 'pt) provider \<Rightarrow> 'g \<Rightarrow> handle \<Rightarrow> byte list
    \<Rightarrow> ('g, 'pt) process \<Rightarrow> int \<times> ('g, 'pt) process" where
  "EC_POINT_oct2point L g r data s =
     (case deref s r of
        None \<Rightarrow> (0, s)
      | Some _ \<Rightarrow>
          (case decode L g data of
             None \<Rightarrow> (0, s)
           | Some v \<Rightarrow> (1, store r v s)))"

definition EC_POINT_set_affine_coordinates :: "('g, 'pt) provider \<Rightarrow> 'g \<Rightarrow> handle
    \<Rightarrow> int \<Rightarrow> int \<Rightarrow> ('g, 'pt) process \<Rightarrow> int \<times> ('g, 'pt) process" where
  "EC_POINT_set_affine_coordinates L g r x y s =
     (case deref s r of
        None \<Rightarrow> (0, s)
      | Some _ \<Rightarrow>
          (case point_from_affine L g x y of
             None \<Rightarrow> (0, s)
           | Some v \<Rightarrow> (1, store r v s)))"

subsection \<open>The helpers of umbral.config and umbral.openssl\<close>

text \<open>
  Modelled from the spec: \<^verbatim>\<open>default_curve\<close> of umbral/config.py, which is not among the
  sources. The spec's \<^verbatim>\<open>get()\<close> returns the installed default and fails with
  ConfigurationError if it was never set.
\<close>

definition default_curve :: "('g, 'pt) process \<Rightarrow> error + 'g Curve" where
  "default_curve s =
     (case CONFIG_curve s of None \<Rightarrow> Inl ConfigurationError | Some c \<Rightarrow> Inr c)"

text \<open>The idiom \<^verbatim>\<open>curve if curve is not None else default_curve()\<close>.\<close>

definition resolve_curve :: "'g Curve option \<Rightarrow> ('g, 'pt) process \<Rightarrow> error + 'g Curve" where
  "resolve_curve curve_arg s =
     (case curve_arg of Some c \<Rightarrow> Inr c | None \<Rightarrow> default_curve s)"

text \<open>
  Modelled from the spec: \<^verbatim>\<open>openssl._get_new_EC_POINT\<close> of umbral/openssl.py, which is
  not among the sources; the spec's \<^verbatim>\<open>new_group_element(curve)\<close>. A native failure
  is an assertion failure.
\<close>

definition get_new_EC_POINT :: "('g, 'pt) provider \<Rightarrow> 'g Curve \<Rightarrow> ('g, 'pt) process
    \<Rightarrow> error + (handle \<times> ('g, 'pt) process)" where
  "get_new_EC_POINT L c s =
     (case EC_POINT_new L (ec_group c) s of
        (None, _) \<Rightarrow> Inl InternalError
      | (Some h, s') \<Rightarrow> Inr (h, s'))"

text \<open>
  Modelled from the spec: \<^verbatim>\<open>openssl._get_EC_POINT_via_affine\<close> of umbral/openssl.py,
  which is not among the sources; the spec's \<^verbatim>\<open>point_from_affine\<close>.
\<close>

definition get_EC_POINT_via_affine :: "('g, 'pt) provider \<Rightarrow> int \<Rightarrow> int \<Rightarrow> 'g Curve
    \<Rightarrow> ('g, 'pt) process \<Rightarrow> error + (handle \<times> ('g, 'pt) process)" where
  "get_EC_POINT_via_affine L x y c s =
     (case get_new_EC_POINT L c s of
        Inl e \<Rightarrow> Inl e
      | Inr (h, s1) \<Rightarrow>
          (case EC_POINT_set_affine_coordinates L (ec_group c) h x y s1 of
             (res, s2) \<Rightarrow>
               (case openssl_assert (res = 1) of
                  Inl e \<Rightarrow> Inl e
                | Inr _ \<Rightarrow> Inr (h, s2))))"

subsection \<open>The methods of Point\<close>

definition expected_bytes_length :: "'g Curve option \<Rightarrow> bool \<Rightarrow> ('g, 'pt) process
    \<Rightarrow> error + nat" where
  "expected_bytes_length curve_arg is_compressed s =
     (case resolve_curve curve_arg s of
        Inl e \<Rightarrow> Inl e
      | Inr c \<Rightarrow>
          (let coord_size = field_order_size_in_bytes c
           in if is_compressed then Inr (1 + coord_size)
              else Inr (1 + 2 * coord_size)))"

text \<open>
  \<^verbatim>\<open>gen_rand\<close>: the scalar drawn by \<^verbatim>\<open>CurveBN.gen_rand(curve)\<close> is the argument
  \<open>rand_bn\<close> of the model.
\<close>

definition gen_rand :: "('g, 'pt) provider \<Rightarrow> 'g Curve option \<Rightarrow> nat \<Rightarrow> ('g, 'pt) process
    \<Rightarrow> error + ('g Point \<times> ('g, 'pt) process)" where
  "gen_rand L curve_arg rand_bn s =
     (case resolve_curve curve_arg s of
        Inl e \<Rightarrow> Inl e
      | Inr c \<Rightarrow>
          (case get_new_EC_POINT L c s of
             Inl e \<Rightarrow> Inl e
           | Inr (rand_point, s1) \<Rightarrow>
               (case EC_POINT_mul L (ec_group c) rand_point (generator c) rand_bn s1 of
                  (res, s2) \<Rightarrow>
                    (case openssl_assert (res = 1) of
                       Inl e \<Rightarrow> Inl e
                     | Inr _ \<Rightarrow> Inr (\<lparr>ec_point = rand_point, curve = c\<rparr>, s2)))))"

text \<open>
  \<^verbatim>\<open>from_affine\<close>: the coordinates are Python ints, turned into bignums of the same
  value by \<^verbatim>\<open>openssl._int_to_bn\<close>, so the model passes the integers on.
\<close>

definition from_affine :: "('g, 'pt) provider \<Rightarrow> int \<times> int \<Rightarrow> 'g Curve option
    \<Rightarrow> ('g, 'pt) process \<Rightarrow> error + ('g Point \<times> ('g, 'pt) process)" where
  "from_affine L coords curve_arg s =
     (case resolve_curve curve_arg s of
        Inl e \<Rightarrow> Inl e
      | Inr c \<Rightarrow>
          (case coords of
             (affine_x, affine_y) \<Rightarrow>
               (case get_EC_POINT_via_affine L affine_x affine_y c s of
                  Inl e \<Rightarrow> Inl e
                | Inr (h, s1) \<Rightarrow> Inr (\<lparr>ec_point = h, curve = c\<rparr>, s1))))"

text \<open>
  Modelled from the spec: \<^verbatim>\<open>openssl._get_affine_coords_via_EC_POINT\<close> of
  umbral/openssl.py, which is not among the sources; the spec's \<^verbatim>\<open>affine_from_point\<close>.
\<close>

definition get_affine_coords_via_EC_POINT :: "('g, 'pt) provider \<Rightarrow> handle \<Rightarrow> 'g Curve
    \<Rightarrow> ('g, 'pt) process \<Rightarrow> error + (int \<times> int)" where
  "get_affine_coords_via_EC_POINT L h c s =
     (case deref s h of
        None \<Rightarrow> Inl InternalError
      | Some v \<Rightarrow>
          (case affine_from_point L (ec_group c) v of
             None \<Rightarrow> Inl InternalError
           | Some xy \<Rightarrow> Inr xy))"

definition to_affine :: "('g, 'pt) provider \<Rightarrow> 'g Point \<Rightarrow> ('g, 'pt) process
    \<Rightarrow> error + (int \<times> int)" where
  "to_affine L self s =
     (case get_affine_coords_via_EC_POINT L (ec_point self) (curve self) s of
        Inl e \<Rightarrow> Inl e
      | Inr (affine_x, affine_y) \<Rightarrow> Inr (affine_x, affine_y))"

definition from_bytes :: "('g, 'pt) provider \<Rightarrow> byte list \<Rightarrow> 'g Curve option
    \<Rightarrow> ('g, 'pt) process \<Rightarrow> error + ('g Point \<times> ('g, 'pt) process)" where
  "from_bytes L data curve_arg s =
     (case resolve_curve curve_arg s of
        Inl e \<Rightarrow> Inl e
      | Inr c \<Rightarrow>
          (case get_new_EC_POINT L c s of
             Inl e \<Rightarrow> Inl e
           | Inr (point, s1) \<Rightarrow>
               (case EC_POINT_oct2point L (ec_group c) point data s1 of
                  (res, s2) \<Rightarrow>
                    (case openssl_assert (res = 1) of
                       Inl e \<Rightarrow> Inl e
                     | Inr _ \<Rightarrow> Inr (\<lparr>ec_point = point, curve = c\<rparr>, s2)))))"

definition to_bytes :: "('g, 'pt) provider \<Rightarrow> 'g Point \<Rightarrow> bool \<Rightarrow> ('g, 'pt) process
    \<Rightarrow> error + byte list" where
  "to_bytes L self is_compressed s =
     (case expected_bytes_length (Some (curve self)) is_compressed s of
        Inl e \<Rightarrow> Inl e
      | Inr len \<Rightarrow>
          (let point_conversion_form =
                 (if is_compressed then POINT_CONVERSION_COMPRESSED
                  else POINT_CONVERSION_UNCOMPRESSED);
               written = EC_POINT_point2oct L (ec_group (curve self)) (ec_point self)
                           point_conversion_form len s;
               bin_len = length written
           in case openssl_assert (bin_len \<noteq> 0) of
                Inl e \<Rightarrow> Inl e
              | Inr _ \<Rightarrow> Inr (take bin_len written)))"

definition get_generator_from_curve :: "'g Curve option \<Rightarrow> ('g, 'pt) process
    \<Rightarrow> error + 'g Point" where
  "get_generator_from_curve curve_arg s =
     (case resolve_curve curve_arg s of
        Inl e \<Rightarrow> Inl e
      | Inr c \<Rightarrow> Inr \<lparr>ec_point = generator c, curve = c\<rparr>)"

text \<open>\<^verbatim>\<open>__eq__\<close>: \<^verbatim>\<open>not bool(is_equal)\<close> after the assertion \<^verbatim>\<open>is_equal != -1\<close>.\<close>

definition Point_eq :: "('g, 'pt) provider \<Rightarrow> 'g Point \<Rightarrow> 'g Point \<Rightarrow> ('g, 'pt) process
    \<Rightarrow> error + bool" where
  "Point_eq L self other s =
     (let is_equal = EC_POINT_cmp L (ec_group (curve self)) (ec_point self) (ec_point other) s
      in case openssl_assert (is_equal \<noteq> - 1) of
           Inl e \<Rightarrow> Inl e
         | Inr _ \<Rightarrow> Inr (\<not> (is_equal \<noteq> 0)))"

definition Point_mul :: "('g, 'pt) provider \<Rightarrow> 'g Point \<Rightarrow> 'g CurveBN \<Rightarrow> ('g, 'pt) process
    \<Rightarrow> error + ('g Point \<times> ('g, 'pt) process)" where
  "Point_mul L self other s =
     (case get_new_EC_POINT L (curve self) s of
        Inl e \<Rightarrow> Inl e
      | Inr (product, s1) \<Rightarrow>
          (case EC_POINT_mul L (ec_group (curve self)) product (ec_point self) (bignum other) s1 of
             (res, s2) \<Rightarrow>
               (case openssl_assert (res = 1) of
                  Inl e \<Rightarrow> Inl e
                | Inr _ \<Rightarrow> Inr (\<lparr>ec_point = product, curve = curve self\<rparr>, s2))))"

definition Point_add :: "('g, 'pt) provider \<Rightarrow> 'g Point \<Rightarrow> 'g Point \<Rightarrow> ('g, 'pt) process
    \<Rightarrow> error + ('g Point \<times> ('g, 'pt) process)" where
  "Point_add L self other s =
     (case get_new_EC_POINT L (curve self) s of
        Inl e \<Rightarrow> Inl e
      | Inr (op_sum, s1) \<Rightarrow>
          (case EC_POINT_add L (ec_group (curve self)) op_sum (ec_point self) (ec_point other) s1 of
             (res, s2) \<Rightarrow>
               (case openssl_assert (res = 1) of
                  Inl e \<Rightarrow> Inl e
                | Inr _ \<Rightarrow> Inr (\<lparr>ec_point = op_sum, curve = curve self\<rparr>, s2))))"

definition Point_neg :: "('g, 'pt) provider \<Rightarrow> 'g Point \<Rightarrow> ('g, 'pt) process
    \<Rightarrow> error + ('g Point \<times> ('g, 'pt) process)" where
  "Point_neg L self s =
     (case EC_POINT_dup L (ec_point self) (ec_group (curve self)) s of
        (inv_opt, s1) \<Rightarrow>
          (case openssl_assert (inv_opt \<noteq> None) of
             Inl e \<Rightarrow> Inl e
           | Inr _ \<Rightarrow>
               (let inv' = the inv_opt
                in case EC_POINT_invert L (ec_group (curve self)) inv' s1 of
                     (res, s2) \<Rightarrow>
                       (case openssl_assert (res = 1) of
                          Inl e \<Rightarrow> Inl e
                        | Inr _ \<Rightarrow> Inr (\<lparr>ec_point = inv', curve = curve self\<rparr>, s2)))))"

text \<open>\<^verbatim>\<open>__sub__\<close>: \<^verbatim>\<open>self + (-other)\<close>; the negation is evaluated first.\<close>

definition Point_sub :: "('g, 'pt) provider \<Rightarrow> 'g Point \<Rightarrow> 'g Point \<Rightarrow> ('g, 'pt) process
    \<Rightarrow> error + ('g Point \<times> ('g, 'pt) process)" where
  "Point_sub L self other s =
     (case Point_neg L other s of
        Inl e \<Rightarrow> Inl e
      | Inr (negated, s1) \<Rightarrow> Point_add L self negated s1)"

text \<open>\<^verbatim>\<open>__rmul__ = __mul__\<close> and \<^verbatim>\<open>__bytes__\<close>, which is \<^verbatim>\<open>to_bytes()\<close>.\<close>

definition Point_rmul :: "('g, 'pt) provider \<Rightarrow> 'g Point \<Rightarrow> 'g CurveBN \<Rightarrow> ('g, 'pt) process
    \<Rightarrow> error + ('g Point \<times> ('g, 'pt) process)" where
  "Point_rmul = Point_mul"

definition Point_bytes :: "('g, 'pt) provider \<Rightarrow> 'g Point \<Rightarrow> ('g, 'pt) process
    \<Rightarrow> error + byte list" where
  "Point_bytes L self s = to_bytes L self True s"

subsection \<open>A small provider\<close>

text \<open>
  A provider to run the methods on: the group of the curve \<open>y\<^sup>2 = x\<^sup>3 + a x + b\<close> over a small
  prime field, in affine coordinates, with the octet encoding of SEC 1 (sections 2.3.3
  and 2.3.4): the identity is the single octet \<open>00\<close>, a compressed point is \<open>02\<close> or
  \<open>03\<close> (the parity of \<open>y\<close>) followed by \<open>x\<close>, an uncompressed point is \<open>04\<close> followed
  by \<open>x\<close> and \<open>y\<close>, each coordinate big-endian on \<open>coord_bytes\<close> octets.
\<close>

datatype small_point = Infinity | Affine nat nat

record small_group =
  prime :: nat
  coeff_a :: nat
  coeff_b :: nat
  coord_bytes :: nat

fun on_curve :: "small_group \<Rightarrow> small_point \<Rightarrow> bool" where
  "on_curve g Infinity = True"
| "on_curve g (Affine x y) =
     (x < prime g \<and> y < prime g \<and>
      (y * y) mod prime g = (x * x * x + coeff_a g * x + coeff_b g) mod prime g)"

definition inv_mod :: "nat \<Rightarrow> nat \<Rightarrow> nat" where
  "inv_mod p x = (case find (\<lambda>y. (x * y) mod p = 1) [0..<p] of None \<Rightarrow> 0 | Some y \<Rightarrow> y)"

fun small_add :: "small_group \<Rightarrow> small_point \<Rightarrow> small_point \<Rightarrow> small_point" where
  "small_add g Infinity Q = Q"
| "small_add g (Affine x1 y1) Infinity = Affine x1 y1"
| "small_add g (Affine x1 y1) (Affine x2 y2) =
     (let p = prime g in
      if x1 = x2 \<and> (y1 + y2) mod p = 0 then Infinity
      else
        let lam = (if x1 = x2 then (3 * x1 * x1 + coeff_a g) * inv_mod p (2 * y1)
                   else (y2 + p - y1) * inv_mod p (x2 + p - x1)) mod p;
            x3 = (lam * lam + 2 * p - x1 - x2) mod p;
            y3 = (lam * (x1 + p - x3) + p - y1) mod p
        in Affine x3 y3)"

fun small_invert :: "small_group \<Rightarrow> small_point \<Rightarrow> small_point" where
  "small_invert g Infinity = Infinity"
| "small_invert g (Affine x y) = Affine x ((prime g - y) mod prime g)"

primrec small_mul :: "small_group \<Rightarrow> small_point \<Rightarrow> nat \<Rightarrow> small_point" where
  "small_mul g q 0 = Infinity"
| "small_mul g q (Suc m) = small_add g q (small_mul g q m)"

primrec be_bytes :: "nat \<Rightarrow> nat \<Rightarrow> byte list" where
  "be_bytes 0 x = []"
| "be_bytes (Suc k) x = be_bytes k (x div 256) @ [word_of_nat (x mod 256)]"

definition be_nat :: "byte list \<Rightarrow> nat" where
  "be_nat bs = foldl (\<lambda>acc b. acc * 256 + unat b) 0 bs"

fun small_encode :: "small_group \<Rightarrow> small_point \<Rightarrow> point_conversion_form \<Rightarrow> nat
    \<Rightarrow> byte list" where
  "small_encode g Infinity form len = (if len < 1 then [] else [0])"
| "small_encode g (Affine x y) POINT_CONVERSION_COMPRESSED len =
     (if len < 1 + coord_bytes g then []
      else (if even y then 2 else 3) # be_bytes (coord_bytes g) x)"
| "small_encode g (Affine x y) POINT_CONVERSION_UNCOMPRESSED len =
     (if len < 1 + 2 * coord_bytes g then []
      else 4 # be_bytes (coord_bytes g) x @ be_bytes (coord_bytes g) y)"

fun small_decode :: "small_group \<Rightarrow> byte list \<Rightarrow> small_point option" where
  "small_decode g [] = None"
| "small_decode g (b # rest) =
     (if b = 0 then (if rest = [] then Some Infinity else None)
      else if b = 2 \<or> b = 3 then
        (if length rest \<noteq> coord_bytes g then None
         else
           let x = be_nat rest
           in case find (\<lambda>y. on_curve g (Affine x y) \<and> even y = (b = 2)) [0..<prime g] of
                None \<Rightarrow> None
              | Some y \<Rightarrow> Some (Affine x y))
      else if b = 4 then
        (if length rest \<noteq> 2 * coord_bytes g then None
         else
           let x = be_nat (take (coord_bytes g) rest);
               y = be_nat (drop (coord_bytes g) rest)
           in if on_curve g (Affine x y) then Some (Affine x y) else None)
      else None)"

definition small_cmp :: "small_group \<Rightarrow> small_point \<Rightarrow> small_point \<Rightarrow> int" where
  "small_cmp g P Q =
     (if \<not> on_curve g P \<or> \<not> on_curve g Q then - 1 else if P = Q then 0 else 1)"

definition small_from_affine :: "small_group \<Rightarrow> int \<Rightarrow> int \<Rightarrow> small_point option" where
  "small_from_affine g x y =
     (if 0 \<le> x \<and> 0 \<le> y \<and> on_curve g (Affine (nat x) (nat y))
      then Some (Affine (nat x) (nat y)) else None)"

fun small_to_affine :: "small_group \<Rightarrow> small_point \<Rightarrow> (int \<times> int) option" where
  "small_to_affine g Infinity = None"
| "small_to_affine g (Affine x y) = Some (int x, int y)"

definition small_provider :: "(small_group, small_point) provider" where
  "small_provider =
     \<lparr>new_group_element = (\<lambda>g. Some Infinity),
      duplicate = (\<lambda>v g. Some v),
      scalar_mul = (\<lambda>g q m. Some (small_mul g q m)),
      point_add = (\<lambda>g a b. Some (small_add g a b)),
      point_invert = (\<lambda>g a. Some (small_invert g a)),
      point_cmp = small_cmp,
      encode = small_encode,
      decode = small_decode,
      point_from_affine = small_from_affine,
      affine_from_point = small_to_affine,
      is_identity = (\<lambda>g v. v = Infinity)\<rparr>"

text \<open>The curve \<open>y\<^sup>2 = x\<^sup>3 + 7\<close> over the field of 13 elements; its group has order 7.\<close>

definition group13 :: small_group where
  "group13 = \<lparr>prime = 13, coeff_a = 0, coeff_b = 7, coord_bytes = 1\<rparr>"

text \<open>
  A process whose store holds the generator \<open>(7, 5)\<close> at handle 0, and the Curve object
  of that group.
\<close>

definition curve13 :: "small_group Curve" where
  "curve13 = \<lparr>ec_group = group13, generator = 0, field_order_size_in_bytes = 1\<rparr>"

definition process13 :: "(small_group, small_point) process" where
  "process13 = \<lparr>ec_points = [Affine 7 5], CONFIG_curve = None\<rparr>"

text \<open>
  The Point for the generator, and a Curve object for another group, \<open>y\<^sup>2 = x\<^sup>3 + x\<close> over
  the same field.
\<close>

definition point13 :: "small_group Point" where
  "point13 = \<lparr>ec_point = 0, curve = curve13\<rparr>"

definition other_curve13 :: "small_group Curve" where
  "other_curve13 =
     \<lparr>ec_group = \<lparr>prime = 13, coeff_a = 1, coeff_b = 0, coord_bytes = 1\<rparr>,
      generator = 0, field_order_size_in_bytes = 1\<rparr>"

text \<open>A process holding \<open>G\<close>, \<open>2G\<close> and \<open>3G\<close> at the handles 0, 1 and 2.\<close>

definition process13_three :: "(small_group, small_point) process" where
  "process13_three = \<lparr>ec_points = [Affine 7 5, Affine 8 5, Affine 11 8], CONFIG_curve = None\<rparr>"

definition at13 :: "handle \<Rightarrow> small_group Point" where
  "at13 h = \<lparr>ec_point = h, curve = curve13\<rparr>"

subsection \<open>What the claims ask of the provider\<close>







section \<open>The store\<close>

lemma deref_live: "deref s h = Some v \<longleftrightarrow> h < length (ec_points s) \<and> ec_points s ! h = v"
  by (simp add: deref_def)

lemma deref_extend:
  "deref (s\<lparr>ec_points := ec_points s @ [v]\<rparr>) h =
     (if h = length (ec_points s) then Some v else deref s h)"
  by (simp add: deref_def nth_append)

lemma deref_extend_live:
  "deref s h = Some p \<Longrightarrow> deref (s\<lparr>ec_points := ec_points s @ [v]\<rparr>) h = Some p"
  by (simp add: deref_def nth_append split: if_splits)

lemma deref_extend_fresh:
  "deref (s\<lparr>ec_points := ec_points s @ [v]\<rparr>) (length (ec_points s)) = Some v"
  by (simp add: deref_def)

lemma deref_config: "deref (s\<lparr>CONFIG_curve := d\<rparr>) h = deref s h"
  by (simp add: deref_def)

lemma store_fresh:
  "store (length (ec_points s)) r (s\<lparr>ec_points := ec_points s @ [v]\<rparr>) =
     s\<lparr>ec_points := ec_points s @ [r]\<rparr>"
  by (simp add: store_def)

lemma get_new_EC_POINT_ok:
  "new_group_element L (ec_group c) = Some v \<Longrightarrow>
   get_new_EC_POINT L c s = Inr (length (ec_points s), s\<lparr>ec_points := ec_points s @ [v]\<rparr>)"
  by (simp add: get_new_EC_POINT_def EC_POINT_new_def alloc_def)


lemma Point_add_ok:
  assumes "deref s (ec_point P) = Some p" and "deref s (ec_point Q) = Some q"
    and "new_group_element L (ec_group (curve P)) = Some v0"
    and "point_add L (ec_group (curve P)) p q = Some r"
  shows "Point_add L P Q s =
           Inr (\<lparr>ec_point = length (ec_points s), curve = curve P\<rparr>,
                s\<lparr>ec_points := ec_points s @ [r]\<rparr>)"
  using assms
  by (simp add: Point_add_def get_new_EC_POINT_ok EC_POINT_add_def deref_extend_fresh
      deref_extend_live store_fresh openssl_assert_def)

lemma Point_neg_ok:
  assumes "deref s (ec_point P) = Some p"
    and "duplicate L p (ec_group (curve P)) = Some d"
    and "point_invert L (ec_group (curve P)) d = Some i"
  shows "Point_neg L P s =
           Inr (\<lparr>ec_point = length (ec_points s), curve = curve P\<rparr>,
                s\<lparr>ec_points := ec_points s @ [i]\<rparr>)"
  using assms
  by (simp add: Point_neg_def EC_POINT_dup_def alloc_def EC_POINT_invert_def deref_extend
      store_fresh openssl_assert_def)

lemma Point_mul_ok:
  assumes "deref s (ec_point P) = Some p"
    and "new_group_element L (ec_group (curve P)) = Some v0"
    and "scalar_mul L (ec_group (curve P)) p (bignum n) = Some r"
  shows "Point_mul L P n s =
           Inr (\<lparr>ec_point = length (ec_points s), curve = curve P\<rparr>,
                s\<lparr>ec_points := ec_points s @ [r]\<rparr>)"
  using assms
  by (simp add: Point_mul_def get_new_EC_POINT_ok EC_POINT_mul_def deref_extend_fresh
      deref_extend_live store_fresh openssl_assert_def)

lemma gen_rand_ok:
  assumes "deref s (generator c) = Some gv"
    and "new_group_element L (ec_group c) = Some v0"
    and "scalar_mul L (ec_group c) gv r = Some v"
  shows "gen_rand L (Some c) r s =
           Inr (\<lparr>ec_point = length (ec_points s), curve = c\<rparr>,
                s\<lparr>ec_points := ec_points s @ [v]\<rparr>)"
  using assms
  by (simp add: gen_rand_def resolve_curve_def get_new_EC_POINT_ok EC_POINT_mul_def deref_extend_fresh
      deref_extend_live store_fresh openssl_assert_def)



lemma Point_eq_val:
  assumes "deref s (ec_point P) = Some p" and "deref s (ec_point Q) = Some q"
  shows "Point_eq L P Q s =
     (if point_cmp L (ec_group (curve P)) p q = - 1 then Inl InternalError
      else Inr (point_cmp L (ec_group (curve P)) p q = 0))"
  using assms by (simp add: Point_eq_def EC_POINT_cmp_def openssl_assert_def Let_def)

section \<open>The configured default and the curve of a result\<close>

lemma resolve_curve_config:
  "resolve_curve (Some c) (s\<lparr>CONFIG_curve := d\<rparr>) = resolve_curve (Some c) s"
  by (simp add: resolve_curve_def)

lemma resolve_curve_absent:
  "resolve_curve None s =
     (case CONFIG_curve s of None \<Rightarrow> Inl ConfigurationError | Some c \<Rightarrow> resolve_curve (Some c) s)"
  by (simp add: resolve_curve_def default_curve_def split: option.splits)

lemma store_config:
  "store h v (s\<lparr>CONFIG_curve := d\<rparr>) = (store h v s)\<lparr>CONFIG_curve := d\<rparr>"
  by (simp add: store_def)

lemma get_new_EC_POINT_config:
  "get_new_EC_POINT L c (s\<lparr>CONFIG_curve := d\<rparr>) =
     map_sum id (\<lambda>(h, s'). (h, s'\<lparr>CONFIG_curve := d\<rparr>)) (get_new_EC_POINT L c s)"
  by (simp add: get_new_EC_POINT_def EC_POINT_new_def alloc_def split: option.splits)











lemma gen_rand_curve:
  "gen_rand L curve_arg r s = Inr (P, s') \<Longrightarrow> resolve_curve curve_arg s = Inr (curve P)"
  by (auto simp: gen_rand_def openssl_assert_def split: sum.splits prod.splits if_splits)

lemma from_affine_curve:
  "from_affine L xy curve_arg s = Inr (P, s') \<Longrightarrow> resolve_curve curve_arg s = Inr (curve P)"
  by (auto simp: from_affine_def split: sum.splits prod.splits)

lemma from_bytes_curve:
  "from_bytes L data curve_arg s = Inr (P, s') \<Longrightarrow> resolve_curve curve_arg s = Inr (curve P)"
  by (auto simp: from_bytes_def openssl_assert_def split: sum.splits prod.splits if_splits)

lemma get_generator_curve:
  "get_generator_from_curve curve_arg s = Inr P \<Longrightarrow>
   resolve_curve curve_arg s = Inr (curve P) \<and> ec_point P = generator (curve P)"
  by (auto simp: get_generator_from_curve_def split: sum.splits)

lemma Point_mul_curve: "Point_mul L self n s = Inr (R, s') \<Longrightarrow> curve R = curve self"
  by (auto simp: Point_mul_def openssl_assert_def split: sum.splits prod.splits if_splits)

lemma Point_add_curve: "Point_add L self other s = Inr (R, s') \<Longrightarrow> curve R = curve self"
  by (auto simp: Point_add_def openssl_assert_def split: sum.splits prod.splits if_splits)

lemma Point_neg_curve: "Point_neg L self s = Inr (R, s') \<Longrightarrow> curve R = curve self"
  by (auto simp: Point_neg_def openssl_assert_def Let_def split: sum.splits prod.splits if_splits)

lemma Point_sub_curve: "Point_sub L self other s = Inr (R, s') \<Longrightarrow> curve R = curve self"
  by (auto simp: Point_sub_def dest: Point_add_curve split: sum.splits prod.splits)

lemma Point_add_ignores_curve:
  "Point_add L self (other\<lparr>curve := d\<rparr>) s = Point_add L self other s"
  by (simp add: Point_add_def split: sum.splits prod.splits)

lemma Point_mul_ignores_curve:
  "Point_mul L self (n\<lparr>bn_curve := d\<rparr>) s = Point_mul L self n s"
  by (simp add: Point_mul_def split: sum.splits prod.splits)

section \<open>One operation after another\<close>

lemma Point_add_step:
  assumes "deref s (ec_point P) = Some p" and "deref s (ec_point Q) = Some q"
    and "new_group_element L (ec_group (curve P)) = Some v0"
    and "point_add L (ec_group (curve P)) p q = Some r"
  obtains A s' where "Point_add L P Q s = Inr (A, s')" and "curve A = curve P"
    and "deref s' (ec_point A) = Some r"
    and "\<And>h v. deref s h = Some v \<Longrightarrow> deref s' h = Some v"
proof
  show "Point_add L P Q s =
          Inr (\<lparr>ec_point = length (ec_points s), curve = curve P\<rparr>,
               s\<lparr>ec_points := ec_points s @ [r]\<rparr>)"
    by (rule Point_add_ok [OF assms])
qed (simp_all add: deref_extend_fresh deref_extend_live)

lemma Point_neg_step:
  assumes "deref s (ec_point P) = Some p"
    and "duplicate L p (ec_group (curve P)) = Some d"
    and "point_invert L (ec_group (curve P)) d = Some i"
  obtains N s' where "Point_neg L P s = Inr (N, s')" and "curve N = curve P"
    and "deref s' (ec_point N) = Some i"
    and "\<And>h v. deref s h = Some v \<Longrightarrow> deref s' h = Some v"
proof
  show "Point_neg L P s =
          Inr (\<lparr>ec_point = length (ec_points s), curve = curve P\<rparr>,
               s\<lparr>ec_points := ec_points s @ [i]\<rparr>)"
    by (rule Point_neg_ok [OF assms])
qed (simp_all add: deref_extend_fresh deref_extend_live)


lemma Point_eq_equal:
  assumes "deref s (ec_point P) = Some p" and "deref s (ec_point Q) = Some q"
    and "point_cmp L (ec_group (curve P)) p q = 0"
  shows "Point_eq L P Q s = Inr True"
  using assms by (simp add: Point_eq_val)


section \<open>Equality\<close>

text \<open>
  Claim C4. For two Points whose handles designate live objects, \<^verbatim>\<open>__eq__\<close> returns
  True exactly when the provider's compare primitive returns 0, returns False exactly
  when it returns a code that is neither 0 nor the error sentinel -1, and raises the
  assertion error exactly when it returns -1: the sentinel is never read as "not equal".
\<close>

theorem Point_eq_follows_cmp:
  assumes "deref s (ec_point P) = Some p" and "deref s (ec_point Q) = Some q"
  shows "(Point_eq L P Q s = Inr True \<longleftrightarrow> point_cmp L (ec_group (curve P)) p q = 0) \<and>
         (Point_eq L P Q s = Inr False \<longleftrightarrow>
            point_cmp L (ec_group (curve P)) p q \<noteq> 0 \<and>
            point_cmp L (ec_group (curve P)) p q \<noteq> - 1) \<and>
         (Point_eq L P Q s = Inl InternalError \<longleftrightarrow>
            point_cmp L (ec_group (curve P)) p q = - 1)"
  by (simp add: Point_eq_val [OF assms])

text \<open>
  The generator of the small curve equals itself; compared under a group whose curve it
  is not on, the small provider signals -1 and the comparison raises.
\<close>

theorem Point_eq_follows_cmp_witness:
  "deref process13 0 = Some (Affine 7 5) \<and>
   Point_eq small_provider \<lparr>ec_point = 0, curve = curve13\<rparr> \<lparr>ec_point = 0, curve = curve13\<rparr>
     process13 = Inr True \<and>
   Point_eq small_provider \<lparr>ec_point = 0, curve = curve13\<lparr>ec_group := group13\<lparr>coeff_b := 1\<rparr>\<rparr>\<rparr>
     \<lparr>ec_point = 0, curve = curve13\<rparr> process13 = Inl InternalError"
proof -
  have live: "deref process13 0 = Some (Affine 7 5)"
    by code_simp
  have c0: "point_cmp small_provider group13 (Affine 7 5) (Affine 7 5) = 0"
    by code_simp
  have c1: "point_cmp small_provider (group13\<lparr>coeff_b := 1\<rparr>) (Affine 7 5) (Affine 7 5) = - 1"
    by code_simp
  have g: "ec_group curve13 = group13"
    by (simp add: curve13_def)
  show ?thesis
    using live c0 c1 g
      Point_eq_follows_cmp [of process13 "\<lparr>ec_point = 0, curve = curve13\<rparr>" "Affine 7 5"
        "\<lparr>ec_point = 0, curve = curve13\<rparr>" "Affine 7 5" small_provider]
      Point_eq_follows_cmp [of process13
        "\<lparr>ec_point = 0, curve = curve13\<lparr>ec_group := group13\<lparr>coeff_b := 1\<rparr>\<rparr>\<rparr>" "Affine 7 5"
        "\<lparr>ec_point = 0, curve = curve13\<rparr>" "Affine 7 5" small_provider]
    by simp
qed

section \<open>Decoding\<close>



section \<open>Negation\<close>

text \<open>
  Claim C6. When \<^verbatim>\<open>__neg__\<close> returns, the new Point holds a handle that designated no
  object before the call, hence distinct from the handle of \<open>self\<close>; the object of
  \<open>self\<close> and every other object of the store are what they were before the call, the
  store has grown by exactly the new object, and the new Point is on the curve of
  \<open>self\<close>.
\<close>

theorem Point_neg_fresh_and_frame:
  assumes "Point_neg L P s = Inr (N, s')"
  shows "ec_point N \<noteq> ec_point P \<and>
         deref s (ec_point N) = None \<and>
         deref s (ec_point P) \<noteq> None \<and>
         deref s' (ec_point P) = deref s (ec_point P) \<and>
         take (length (ec_points s)) (ec_points s') = ec_points s \<and>
         length (ec_points s') = Suc (length (ec_points s)) \<and>
         CONFIG_curve s' = CONFIG_curve s \<and>
         curve N = curve P"
proof -
  from assms obtain p d i where p: "deref s (ec_point P) = Some p"
    and d: "duplicate L p (ec_group (curve P)) = Some d"
    and i: "point_invert L (ec_group (curve P)) d = Some i"
    by (auto simp: Point_neg_def EC_POINT_dup_def EC_POINT_invert_def alloc_def
        openssl_assert_def deref_extend_fresh store_fresh Let_def
        split: option.splits if_splits prod.splits)
  from assms Point_neg_ok [OF p d i]
  have N: "N = \<lparr>ec_point = length (ec_points s), curve = curve P\<rparr>"
    and s': "s' = s\<lparr>ec_points := ec_points s @ [i]\<rparr>"
    by simp_all
  from p have lt: "ec_point P < length (ec_points s)"
    by (simp add: deref_def split: if_splits)
  show ?thesis
    using p lt by (simp add: N s' deref_extend_live) (simp add: deref_def)
qed

text \<open>Negating the generator \<open>(7, 5)\<close> of the small curve allocates \<open>(7, 8)\<close> at handle 1.\<close>

theorem Point_neg_fresh_and_frame_witness:
  "Point_neg small_provider \<lparr>ec_point = 0, curve = curve13\<rparr> process13 =
     Inr (\<lparr>ec_point = 1, curve = curve13\<rparr>,
          \<lparr>ec_points = [Affine 7 5, Affine 7 8], CONFIG_curve = None\<rparr>) \<and>
   deref \<lparr>ec_points = [Affine 7 5, Affine 7 8], CONFIG_curve = None :: small_group Curve option\<rparr> 0
     = deref process13 0"
proof -
  have run: "Point_neg small_provider \<lparr>ec_point = 0, curve = curve13\<rparr> process13 =
     Inr (\<lparr>ec_point = 1, curve = curve13\<rparr>,
          \<lparr>ec_points = [Affine 7 5, Affine 7 8], CONFIG_curve = None\<rparr>)"
    by code_simp
  show ?thesis
    using run Point_neg_fresh_and_frame [OF run] by simp
qed

section \<open>The generator\<close>



section \<open>The optional curve argument\<close>


section \<open>The curve of a returned Point\<close>

text \<open>
  Claim C10. A Point returned by \<^verbatim>\<open>gen_rand\<close>, \<^verbatim>\<open>from_affine\<close>, \<^verbatim>\<open>from_bytes\<close> or
  \<^verbatim>\<open>get_generator_from_curve\<close> carries the curve resolved for the call; a Point
  returned by \<^verbatim>\<open>__mul__\<close>, \<^verbatim>\<open>__add__\<close>, \<^verbatim>\<open>__sub__\<close> or \<^verbatim>\<open>__neg__\<close> carries the
  curve of \<open>self\<close>; and the curve of the other operand of \<^verbatim>\<open>__mul__\<close> and \<^verbatim>\<open>__add__\<close>
  is never read, so no check compares it with the curve of \<open>self\<close>.
\<close>

theorem curve_tag_preserved:
  "(gen_rand L ca1 r s1 = Inr (P1, t1) \<longrightarrow> resolve_curve ca1 s1 = Inr (curve P1)) \<and>
   (from_affine L xy ca2 s2 = Inr (P2, t2) \<longrightarrow> resolve_curve ca2 s2 = Inr (curve P2)) \<and>
   (from_bytes L data ca3 s3 = Inr (P3, t3) \<longrightarrow> resolve_curve ca3 s3 = Inr (curve P3)) \<and>
   (get_generator_from_curve ca4 s4 = Inr P4 \<longrightarrow> resolve_curve ca4 s4 = Inr (curve P4)) \<and>
   (Point_mul L self5 n s5 = Inr (P5, t5) \<longrightarrow> curve P5 = curve self5) \<and>
   (Point_add L self6 other6 s6 = Inr (P6, t6) \<longrightarrow> curve P6 = curve self6) \<and>
   (Point_sub L self7 other7 s7 = Inr (P7, t7) \<longrightarrow> curve P7 = curve self7) \<and>
   (Point_neg L self8 s8 = Inr (P8, t8) \<longrightarrow> curve P8 = curve self8) \<and>
   Point_mul L self5 (n\<lparr>bn_curve := d\<rparr>) s5 = Point_mul L self5 n s5 \<and>
   Point_add L self6 (other6\<lparr>curve := d\<rparr>) s6 = Point_add L self6 other6 s6"
  by (intro conjI impI)
    (erule gen_rand_curve from_affine_curve from_bytes_curve get_generator_curve [THEN conjunct1]
       Point_mul_curve Point_add_curve Point_sub_curve Point_neg_curve
     | rule Point_mul_ignores_curve Point_add_ignores_curve)+
text \<open>
  Every operation run on the small curve; the binary ones with an operand tagged with
  another curve, which succeed and return a Point on the curve of \<open>self\<close>.
\<close>

theorem curve_tag_preserved_witness:
  "gen_rand small_provider None 3 (process13\<lparr>CONFIG_curve := Some curve13\<rparr>) =
     Inr (\<lparr>ec_point = 1, curve = curve13\<rparr>,
          \<lparr>ec_points = [Affine 7 5, Affine 11 8], CONFIG_curve = Some curve13\<rparr>) \<and>
   from_affine small_provider (8, 5) (Some curve13) process13 =
     Inr (\<lparr>ec_point = 1, curve = curve13\<rparr>,
          \<lparr>ec_points = [Affine 7 5, Affine 8 5], CONFIG_curve = None\<rparr>) \<and>
   from_bytes small_provider [4, 8, 5] (Some curve13) process13 =
     Inr (\<lparr>ec_point = 1, curve = curve13\<rparr>,
          \<lparr>ec_points = [Affine 7 5, Affine 8 5], CONFIG_curve = None\<rparr>) \<and>
   get_generator_from_curve (Some curve13) process13 = Inr point13 \<and>
   Point_mul small_provider point13 \<lparr>bignum = 2, bn_curve = other_curve13\<rparr> process13 =
     Inr (\<lparr>ec_point = 1, curve = curve13\<rparr>,
          \<lparr>ec_points = [Affine 7 5, Affine 8 5], CONFIG_curve = None\<rparr>) \<and>
   Point_add small_provider point13 (point13\<lparr>curve := other_curve13\<rparr>) process13 =
     Inr (\<lparr>ec_point = 1, curve = curve13\<rparr>,
          \<lparr>ec_points = [Affine 7 5, Affine 8 5], CONFIG_curve = None\<rparr>) \<and>
   Point_sub small_provider point13 (point13\<lparr>curve := other_curve13\<rparr>) process13 =
     Inr (\<lparr>ec_point = 2, curve = curve13\<rparr>,
          \<lparr>ec_points = [Affine 7 5, Affine 7 8, Infinity], CONFIG_curve = None\<rparr>) \<and>
   Point_neg small_provider point13 process13 =
     Inr (\<lparr>ec_point = 1, curve = curve13\<rparr>,
          \<lparr>ec_points = [Affine 7 5, Affine 7 8], CONFIG_curve = None\<rparr>) \<and>
   curve (point13\<lparr>curve := other_curve13\<rparr>) \<noteq> curve point13"
proof -
  have r1: "gen_rand small_provider None 3 (process13\<lparr>CONFIG_curve := Some curve13\<rparr>) =
     Inr (\<lparr>ec_point = 1, curve = curve13\<rparr>,
          \<lparr>ec_points = [Affine 7 5, Affine 11 8], CONFIG_curve = Some curve13\<rparr>)"
    by code_simp
  have r2: "from_affine small_provider (8, 5) (Some curve13) process13 =
     Inr (\<lparr>ec_point = 1, curve = curve13\<rparr>,
          \<lparr>ec_points = [Affine 7 5, Affine 8 5], CONFIG_curve = None\<rparr>)"
    by code_simp
  have r3: "from_bytes small_provider [4, 8, 5] (Some curve13) process13 =
     Inr (\<lparr>ec_point = 1, curve = curve13\<rparr>,
          \<lparr>ec_points = [Affine 7 5, Affine 8 5], CONFIG_curve = None\<rparr>)"
    by code_simp
  have r4: "get_generator_from_curve (Some curve13) process13 = Inr point13"
    by code_simp
  have r5: "Point_mul small_provider point13 \<lparr>bignum = 2, bn_curve = other_curve13\<rparr> process13 =
     Inr (\<lparr>ec_point = 1, curve = curve13\<rparr>,
          \<lparr>ec_points = [Affine 7 5, Affine 8 5], CONFIG_curve = None\<rparr>)"
    by code_simp
  have r6: "Point_add small_provider point13 (point13\<lparr>curve := other_curve13\<rparr>) process13 =
     Inr (\<lparr>ec_point = 1, curve = curve13\<rparr>,
          \<lparr>ec_points = [Affine 7 5, Affine 8 5], CONFIG_curve = None\<rparr>)"
    by code_simp
  have r7: "Point_sub small_provider point13 (point13\<lparr>curve := other_curve13\<rparr>) process13 =
     Inr (\<lparr>ec_point = 2, curve = curve13\<rparr>,
          \<lparr>ec_points = [Affine 7 5, Affine 7 8, Infinity], CONFIG_curve = None\<rparr>)"
    by code_simp
  have r8: "Point_neg small_provider point13 process13 =
     Inr (\<lparr>ec_point = 1, curve = curve13\<rparr>,
          \<lparr>ec_points = [Affine 7 5, Affine 7 8], CONFIG_curve = None\<rparr>)"
    by code_simp
  have ne: "curve (point13\<lparr>curve := other_curve13\<rparr>) \<noteq> curve point13"
    by (simp add: point13_def curve13_def other_curve13_def group13_def)
  note tag = curve_tag_preserved [where L = small_provider
      and ?ca1.0 = None and r = 3 and ?s1.0 = "process13\<lparr>CONFIG_curve := Some curve13\<rparr>"
      and ?P1.0 = "\<lparr>ec_point = 1, curve = curve13\<rparr>"
      and ?t1.0 = "\<lparr>ec_points = [Affine 7 5, Affine 11 8], CONFIG_curve = Some curve13\<rparr>"
      and xy = "(8, 5)" and ?ca2.0 = "Some curve13" and ?s2.0 = process13
      and ?P2.0 = "\<lparr>ec_point = 1, curve = curve13\<rparr>"
      and ?t2.0 = "\<lparr>ec_points = [Affine 7 5, Affine 8 5], CONFIG_curve = None\<rparr>"
      and data = "[4, 8, 5]" and ?ca3.0 = "Some curve13" and ?s3.0 = process13
      and ?P3.0 = "\<lparr>ec_point = 1, curve = curve13\<rparr>"
      and ?t3.0 = "\<lparr>ec_points = [Affine 7 5, Affine 8 5], CONFIG_curve = None\<rparr>"
      and ?ca4.0 = "Some curve13" and ?s4.0 = process13 and ?P4.0 = point13
      and ?self5.0 = point13 and n = "\<lparr>bignum = 2, bn_curve = other_curve13\<rparr>"
      and ?s5.0 = process13 and ?P5.0 = "\<lparr>ec_point = 1, curve = curve13\<rparr>"
      and ?t5.0 = "\<lparr>ec_points = [Affine 7 5, Affine 8 5], CONFIG_curve = None\<rparr>"
      and ?self6.0 = point13 and ?other6.0 = "point13\<lparr>curve := other_curve13\<rparr>"
      and ?s6.0 = process13 and ?P6.0 = "\<lparr>ec_point = 1, curve = curve13\<rparr>"
      and ?t6.0 = "\<lparr>ec_points = [Affine 7 5, Affine 8 5], CONFIG_curve = None\<rparr>"
      and ?self7.0 = point13 and ?other7.0 = "point13\<lparr>curve := other_curve13\<rparr>"
      and ?s7.0 = process13 and ?P7.0 = "\<lparr>ec_point = 2, curve = curve13\<rparr>"
      and ?t7.0 = "\<lparr>ec_points = [Affine 7 5, Affine 7 8, Infinity], CONFIG_curve = None\<rparr>"
      and ?self8.0 = point13 and ?s8.0 = process13
      and ?P8.0 = "\<lparr>ec_point = 1, curve = curve13\<rparr>"
      and ?t8.0 = "\<lparr>ec_points = [Affine 7 5, Affine 7 8], CONFIG_curve = None\<rparr>"
      and d = curve13]
  show ?thesis
    using r1 r2 r3 r4 r5 r6 r7 r8 ne tag by simp
qed

section \<open>Subtraction\<close>

text \<open>
  Claim C5. \<^verbatim>\<open>__sub__\<close> is \<^verbatim>\<open>__add__\<close> applied to the result of \<^verbatim>\<open>__neg__\<close> on the other
  operand. When the provider duplicates and inverts the point of \<open>Q\<close>, adds the result
  to the point of \<open>P\<close> and compares the sum equal to itself, \<open>P - Q\<close> returns, and
  \<open>P + (-Q)\<close> computed afterwards returns a Point that compares equal to it.
\<close>

theorem Point_sub_is_add_neg:
  assumes p: "deref s (ec_point P) = Some p" and q: "deref s (ec_point Q) = Some q"
    and new: "new_group_element L (ec_group (curve P)) = Some v0"
    and d: "duplicate L q (ec_group (curve Q)) = Some d"
    and i: "point_invert L (ec_group (curve Q)) d = Some i"
    and r: "point_add L (ec_group (curve P)) p i = Some r"
    and refl: "point_cmp L (ec_group (curve P)) r r = 0"
  shows "Point_sub L P Q s =
           (case Point_neg L Q s of
              Inl e \<Rightarrow> Inl e
            | Inr (N, s1) \<Rightarrow> Point_add L P N s1) \<and>
         (case Point_sub L P Q s of
            Inl e \<Rightarrow> Inl e
          | Inr (D, s1) \<Rightarrow>
              (case Point_neg L Q s1 of
                 Inl e \<Rightarrow> Inl e
               | Inr (N, s2) \<Rightarrow>
                   (case Point_add L P N s2 of
                      Inl e \<Rightarrow> Inl e
                    | Inr (S, s3) \<Rightarrow> Point_eq L D S s3))) = Inr True"
proof
  show "Point_sub L P Q s =
          (case Point_neg L Q s of Inl e \<Rightarrow> Inl e | Inr (N, s1) \<Rightarrow> Point_add L P N s1)"
    by (simp add: Point_sub_def)
next
  obtain N1 s1
    where neg1: "Point_neg L Q s = Inr (N1, s1)"
      and tag1: "curve N1 = curve Q"
      and n1: "deref s1 (ec_point N1) = Some i"
      and keep1: "\<And>h v. deref s h = Some v \<Longrightarrow> deref s1 h = Some v"
    by (rule Point_neg_step [OF q d i]) (rule that)
  obtain D s2
    where add1: "Point_add L P N1 s1 = Inr (D, s2)"
      and cD: "curve D = curve P"
      and d2: "deref s2 (ec_point D) = Some r"
      and keep2: "\<And>h v. deref s1 h = Some v \<Longrightarrow> deref s2 h = Some v"
    by (rule Point_add_step [OF keep1 [OF p] n1 new r]) (rule that)
  obtain N2 s3
    where neg2: "Point_neg L Q s2 = Inr (N2, s3)"
      and tag3: "curve N2 = curve Q"
      and n3: "deref s3 (ec_point N2) = Some i"
      and keep3: "\<And>h v. deref s2 h = Some v \<Longrightarrow> deref s3 h = Some v"
    by (rule Point_neg_step [OF keep2 [OF keep1 [OF q]] d i]) (rule that)
  obtain S s4
    where add2: "Point_add L P N2 s3 = Inr (S, s4)"
      and tag4: "curve S = curve P"
      and s4: "deref s4 (ec_point S) = Some r"
      and keep4: "\<And>h v. deref s3 h = Some v \<Longrightarrow> deref s4 h = Some v"
    by (rule Point_add_step [OF keep3 [OF keep2 [OF keep1 [OF p]]] n3 new r]) (rule that)
  have "Point_eq L D S s4 = Inr True"
    using keep4 [OF keep3 [OF d2]] s4 refl by (simp add: Point_eq_equal cD)
  then show "(case Point_sub L P Q s of
            Inl e \<Rightarrow> Inl e
          | Inr (D, s1) \<Rightarrow>
              (case Point_neg L Q s1 of
                 Inl e \<Rightarrow> Inl e
               | Inr (N, s2) \<Rightarrow>
                   (case Point_add L P N s2 of
                      Inl e \<Rightarrow> Inl e
                    | Inr (S, s3) \<Rightarrow> Point_eq L D S s3))) = Inr True"
    by (simp add: Point_sub_def neg1 add1 neg2 add2)
qed

text \<open>On the small curve, \<open>G - 2G\<close> and \<open>G + (-2G)\<close> are both \<open>(7, 8)\<close>.\<close>

theorem Point_sub_is_add_neg_witness:
  "deref process13_three (ec_point (at13 0)) = Some (Affine 7 5) \<and>
   deref process13_three (ec_point (at13 1)) = Some (Affine 8 5) \<and>
   point_add small_provider (ec_group (curve (at13 0))) (Affine 7 5) (Affine 8 8)
     = Some (Affine 7 8) \<and>
   (case Point_sub small_provider (at13 0) (at13 1) process13_three of
      Inl e \<Rightarrow> Inl e
    | Inr (D, s1) \<Rightarrow>
        (case Point_neg small_provider (at13 1) s1 of
           Inl e \<Rightarrow> Inl e
         | Inr (N, s2) \<Rightarrow>
             (case Point_add small_provider (at13 0) N s2 of
                Inl e \<Rightarrow> Inl e
              | Inr (S, s3) \<Rightarrow> Point_eq small_provider D S s3))) = Inr True"
proof -
  have p: "deref process13_three (ec_point (at13 0)) = Some (Affine 7 5)"
    by code_simp
  have q: "deref process13_three (ec_point (at13 1)) = Some (Affine 8 5)"
    by code_simp
  have new: "new_group_element small_provider (ec_group (curve (at13 0))) = Some Infinity"
    by code_simp
  have d: "duplicate small_provider (Affine 8 5) (ec_group (curve (at13 1))) = Some (Affine 8 5)"
    by code_simp
  have i: "point_invert small_provider (ec_group (curve (at13 1))) (Affine 8 5) = Some (Affine 8 8)"
    by code_simp
  have r: "point_add small_provider (ec_group (curve (at13 0))) (Affine 7 5) (Affine 8 8)
             = Some (Affine 7 8)"
    by code_simp
  have refl: "point_cmp small_provider (ec_group (curve (at13 0))) (Affine 7 8) (Affine 7 8) = 0"
    by code_simp
  show ?thesis
    by (intro conjI p q r Point_sub_is_add_neg [OF p q new d i r refl, THEN conjunct2])
qed

section \<open>Addition\<close>


section \<open>Encoding and decoding\<close>










end
